theory Spec2Isabelle
  imports Complex_Main "HOL-Library.Log_Nat"
begin

section \<open>Numbers and grid parameters\<close>

text \<open>
  The program computes with JavaScript numbers. The grid parameters are finite numbers
  (image dimensions, mouse coordinates divided by the scale, bounded inputs); they are
  taken here as rationals, and \<open>+\<close>, \<open>-\<close>, \<open>*\<close>, \<open>/\<close> are the exact operations. This is the
  arithmetic the program computes on integers and on fractions with a small power of two
  as denominator, which covers all the concrete inputs evaluated below except one. Where
  the rounding of the double-precision operations decides a statement (the bound on the
  grid extent), the operations of the program are also given with their rounding, in the
  section on double precision. Division is only meaningful for a non-zero divisor: every
  statement that involves a quotient by \<open>cellSize\<close> assumes \<open>cellSize > 0\<close>.

  \<open>Math.floor\<close> is \<open>\<lfloor>_\<rfloor>\<close>, \<open>Math.min\<close> is \<open>min\<close>, and \<open>Math.round\<close> rounds to the nearest
  integer with ties towards \<open>+\<infinity>\<close>.
\<close>

type_synonym Coord = "rat \<times> rat"

record GridParams =
  canvasSize :: Coord
  maxCells :: Coord
  cellSize :: Coord
  gridOffset :: Coord
  renderScale :: rat

definition Math_floor :: "rat \<Rightarrow> rat" where
  "Math_floor q = of_int \<lfloor>q\<rfloor>"

definition Math_round :: "rat \<Rightarrow> int" where
  "Math_round q = \<lfloor>q + 1 / 2\<rfloor>"

text \<open>Conversion of a number to an integer: truncation towards zero.\<close>

definition truncate_number :: "rat \<Rightarrow> int" where
  "truncate_number q = (if 0 \<le> q then \<lfloor>q\<rfloor> else \<lceil>q\<rceil>)"

section \<open>Cell counts at the three places that compute them\<close>

text \<open>\<open>gridPixels\<close> and \<open>gridEnd\<close> of \<open>renderGrid\<close> (canvas2DRenderer.ts).\<close>

definition renderGrid_gridPixels :: "GridParams \<Rightarrow> Coord" where
  "renderGrid_gridPixels p =
     (min (fst (maxCells p))
          (Math_floor ((fst (canvasSize p) - fst (gridOffset p)) / fst (cellSize p))),
      min (snd (maxCells p))
          (Math_floor ((snd (canvasSize p) - snd (gridOffset p)) / snd (cellSize p))))"

definition renderGrid_gridEnd :: "GridParams \<Rightarrow> Coord" where
  "renderGrid_gridEnd p =
     (fst (gridOffset p) + fst (cellSize p) * fst (renderGrid_gridPixels p),
      snd (gridOffset p) + snd (cellSize p) * snd (renderGrid_gridPixels p))"

text \<open>The uniforms computed by \<open>drawGridScene\<close> (webGLRenderer.ts).\<close>

definition drawGridScene_gridCellSize :: "GridParams \<Rightarrow> Coord" where
  "drawGridScene_gridCellSize p =
     (fst (cellSize p) * renderScale p, snd (cellSize p) * renderScale p)"

definition drawGridScene_gridCellCount :: "GridParams \<Rightarrow> Coord" where
  "drawGridScene_gridCellCount p =
     (min (fst (maxCells p))
          (Math_floor ((fst (canvasSize p) - fst (gridOffset p)) / fst (cellSize p))),
      min (snd (maxCells p))
          (Math_floor ((snd (canvasSize p) - snd (gridOffset p)) / snd (cellSize p))))"

definition drawGridScene_gridBottomLeft :: "GridParams \<Rightarrow> Coord" where
  "drawGridScene_gridBottomLeft p =
     (renderScale p * fst (gridOffset p),
      renderScale p *
        (snd (canvasSize p) - snd (gridOffset p)
           - snd (drawGridScene_gridCellCount p) * snd (cellSize p)))"

text \<open>\<open>pixelsWidth\<close> and \<open>pixelsHeight\<close> of the extraction effect (App.tsx).\<close>

definition pixelsWidth :: "GridParams \<Rightarrow> rat" where
  "pixelsWidth p =
     min (fst (maxCells p))
         (Math_floor ((fst (canvasSize p) - fst (gridOffset p)) / fst (cellSize p)))"

definition pixelsHeight :: "GridParams \<Rightarrow> rat" where
  "pixelsHeight p =
     min (snd (maxCells p))
         (Math_floor ((snd (canvasSize p) - snd (gridOffset p)) / snd (cellSize p)))"

section \<open>Double precision\<close>

text \<open>
  A JavaScript number is a double: every arithmetic operation yields the double nearest
  to the exact result, ties going to the even significand. \<open>fl\<close> is that rounding, for
  results in the normal range (no overflow, no subnormal numbers; the quantities here are
  far inside). \<open>binade q\<close> is the exponent \<open>e\<close> with \<open>2^e \<le> |q| < 2^(e+1)\<close>, so that the doubles
  around \<open>q\<close> are the multiples of \<open>2^(e-52)\<close>. \<open>Math.floor\<close> and \<open>Math.min\<close> are exact.
\<close>

definition binade :: "rat \<Rightarrow> int" where
  "binade q =
     (let (a, b) = quotient_of \<bar>q\<bar>; k = bitlen a - bitlen b
      in if 2 powi k \<le> \<bar>q\<bar> then k else k - 1)"

definition round_half_even :: "rat \<Rightarrow> int" where
  "round_half_even m =
     (let f = \<lfloor>m\<rfloor>; r = m - of_int f
      in if r < 1 / 2 then f else if 1 / 2 < r then f + 1 else if even f then f else f + 1)"

definition fl :: "rat \<Rightarrow> rat" where
  "fl q =
     (if q = 0 then 0
      else let u = 2 powi (binade q - 52)
           in sgn q * of_int (round_half_even (\<bar>q\<bar> / u)) * u)"

text \<open>\<open>gridPixels\<close> and \<open>gridEnd\<close> of \<open>renderGrid\<close> with every operation rounded.\<close>

definition renderGrid_gridPixels_double :: "GridParams \<Rightarrow> Coord" where
  "renderGrid_gridPixels_double p =
     (min (fst (maxCells p))
          (Math_floor (fl (fl (fst (canvasSize p) - fst (gridOffset p)) / fst (cellSize p)))),
      min (snd (maxCells p))
          (Math_floor (fl (fl (snd (canvasSize p) - snd (gridOffset p)) / snd (cellSize p)))))"

definition renderGrid_gridEnd_double :: "GridParams \<Rightarrow> Coord" where
  "renderGrid_gridEnd_double p =
     (fl (fst (gridOffset p) + fl (fst (cellSize p) * fst (renderGrid_gridPixels_double p))),
      fl (snd (gridOffset p) + fl (snd (cellSize p) * snd (renderGrid_gridPixels_double p))))"

text \<open>
  A grid dragged to offset 20 on a canvas of 431 pixels, with the cell size that the
  resize drag computes as \<open>137 / 58\<close>, the double \<open>2.3620689655172415\<close>.
\<close>

definition params_rounding :: GridParams where
  "params_rounding = \<lparr>canvasSize = (431, 431), maxCells = (500, 500),
     cellSize = (fl (137 / 58), fl (137 / 58)), gridOffset = (20, 20), renderScale = 1\<rparr>"

text \<open>Concrete parameter sets used for evaluation.\<close>

definition params_100 :: GridParams where
  "params_100 = \<lparr>canvasSize = (100, 100), maxCells = (8, 8), cellSize = (20, 20),
     gridOffset = (0, 0), renderScale = 1\<rparr>"

definition params_offset_beyond :: GridParams where
  "params_offset_beyond = \<lparr>canvasSize = (100, 100), maxCells = (500, 500), cellSize = (8, 8),
     gridOffset = (108, 108), renderScale = 2\<rparr>"

section \<open>The raster renderer (canvas2DRenderer.ts)\<close>

text \<open>
  A canvas element: its identity, its \<open>width\<close> and \<open>height\<close> attributes (unsigned integers),
  whether \<open>getContext("2d")\<close> and \<open>getContext("webgl")\<close> yield a context, and the calls its 2D
  context has received, in order.
\<close>

datatype ctx_call =
    ClearRect rat rat rat rat
  | LineWidth rat
  | BeginPath
  | MoveTo rat rat
  | LineTo rat rat
  | StrokeStyle string
  | SetLineDash "rat list"
  | Stroke

record HTMLCanvasElement =
  canvas_id :: nat
  width :: nat
  height :: nat
  context2d :: bool
  contextWebGL :: bool
  calls :: "ctx_call list"

definition unsigned_long :: "rat \<Rightarrow> nat" where
  \<comment> \<open>the conversion applied when a number is stored into \<open>width\<close> or \<open>height\<close>: truncation,
     modulo \<open>2^32\<close>\<close>
  "unsigned_long q = nat (truncate_number q mod 2 ^ 32)"

text \<open>
  The two drawing loops have the same shape:
  \<open>for (x = x0, ix = 0; x < limit && ix <= n; x += step, ++ix) body(x)\<close>.
\<close>

function for_lines ::
  "rat \<Rightarrow> rat \<Rightarrow> rat \<Rightarrow> (rat \<Rightarrow> ctx_call list) \<Rightarrow> rat \<Rightarrow> nat \<Rightarrow> ctx_call list" where
  "for_lines limit n step body x ix =
     (if x < limit \<and> of_nat ix \<le> n
      then body x @ for_lines limit n step body (x + step) (Suc ix)
      else [])"
  by pat_completeness auto
termination
proof (relation "measure (\<lambda>(limit, n, step, body, x, ix). nat (\<lfloor>n\<rfloor> + 1) - ix)")
  show "wf (measure (\<lambda>(limit, n, step, body, x, ix). nat (\<lfloor>n\<rfloor> + 1) - ix))"
    by simp
next
  fix limit n step :: rat and body :: "rat \<Rightarrow> ctx_call list" and x :: rat and ix :: nat
  assume "x < limit \<and> of_nat ix \<le> n"
  then have "int ix \<le> \<lfloor>n\<rfloor>" by (simp add: le_floor_iff)
  then show "((limit, n, step, body, x + step, Suc ix), (limit, n, step, body, x, ix))
      \<in> measure (\<lambda>(limit, n, step, body, x, ix). nat (\<lfloor>n\<rfloor> + 1) - ix)"
    by simp
qed

declare for_lines.simps [simp del]

definition vertical_line :: "GridParams \<Rightarrow> rat \<Rightarrow> ctx_call list" where
  "vertical_line p x =
     [MoveTo (x + 1 / 2) (renderScale p * snd (gridOffset p)),
      LineTo (x + 1 / 2) (renderScale p * snd (renderGrid_gridEnd p))]"

definition horizontal_line :: "GridParams \<Rightarrow> rat \<Rightarrow> ctx_call list" where
  "horizontal_line p y =
     [MoveTo (renderScale p * fst (gridOffset p)) (y + 1 / 2),
      LineTo (renderScale p * fst (renderGrid_gridEnd p)) (y + 1 / 2)]"

definition origin_lines :: "GridParams \<Rightarrow> ctx_call list" where
  \<comment> \<open>the first column and the first row, stroked once more in cyan\<close>
  "origin_lines p =
     [BeginPath]
     @ vertical_line p (renderScale p * fst (gridOffset p))
     @ horizontal_line p (renderScale p * snd (gridOffset p))
     @ [StrokeStyle ''cyan'', SetLineDash [1, 1], Stroke]"

definition renderGrid :: "HTMLCanvasElement \<Rightarrow> GridParams \<Rightarrow> HTMLCanvasElement" where
  "renderGrid canvas0 p =
     (let canvas = canvas0\<lparr>width := unsigned_long (fst (canvasSize p) * renderScale p),
                           height := unsigned_long (snd (canvasSize p) * renderScale p)\<rparr>
      in if \<not> context2d canvas then canvas
         else canvas\<lparr>calls := calls canvas
           @ [ClearRect 0 0 (of_nat (width canvas)) (of_nat (height canvas)),
              LineWidth 1, BeginPath]
           @ for_lines (of_nat (width canvas)) (fst (renderGrid_gridPixels p))
               (renderScale p * fst (cellSize p)) (vertical_line p)
               (renderScale p * fst (gridOffset p)) 0
           @ for_lines (of_nat (height canvas)) (snd (renderGrid_gridPixels p))
               (renderScale p * snd (cellSize p)) (horizontal_line p)
               (renderScale p * snd (gridOffset p)) 0
           @ [StrokeStyle ''black'', Stroke, StrokeStyle ''white'', SetLineDash [1, 1], Stroke]
           @ origin_lines p\<rparr>)"


definition blank_canvas :: "nat \<Rightarrow> bool \<Rightarrow> bool \<Rightarrow> HTMLCanvasElement" where
  \<comment> \<open>a fresh canvas element has the default size \<open>300 \<times> 150\<close>\<close>
  "blank_canvas i c2d cgl =
     \<lparr>canvas_id = i, width = 300, height = 150, context2d = c2d, contextWebGL = cgl,
      calls = []\<rparr>"

section \<open>The shader renderer (webGLRenderer.ts)\<close>

text \<open>
  The graphics context is outside the repository. Its answers are collected in a
  \<open>gl_driver\<close>: whether an object can be created, the compile status and the diagnostic log
  of each of the two shaders (each stage is only ever compiled from its one source text),
  the link status and log of the program, and the locations it hands out. A uniform
  location has the type the source gives it after its non-null assertion. The state of
  the context is the next free object name and the sequence of state-changing calls made
  so far.
\<close>

datatype WebGLError = WebGLError string

datatype shader_type = VERTEX_SHADER | FRAGMENT_SHADER

record gl_driver =
  createShader_ok :: "shader_type \<Rightarrow> bool"
  COMPILE_STATUS :: "shader_type \<Rightarrow> bool"
  shaderInfoLog :: "shader_type \<Rightarrow> string option"
  createProgram_ok :: bool
  LINK_STATUS :: bool
  programInfoLog :: "string option"
  attribLocation :: "nat \<Rightarrow> string \<Rightarrow> int"
  uniformLocation :: "nat \<Rightarrow> string \<Rightarrow> nat"
  createBuffer_ok :: bool

datatype gl_call =
    CreateShader shader_type nat
  | ShaderSource nat shader_type
  | CompileShader nat
  | DeleteShader nat
  | CreateProgram nat
  | AttachShader nat nat
  | LinkProgram nat
  | DeleteProgram nat
  | CreateBuffer nat
  | BindBuffer nat
  | BufferData "rat list"
  | DeleteBuffer nat
  | ClearColor rat rat rat rat
  | ClearDepth rat
  | Enable_DEPTH_TEST
  | DepthFunc_LEQUAL
  | Clear
  | VertexAttribPointer int nat
  | EnableVertexAttribArray int
  | Uniform2fv nat "rat list"
  | UseProgram nat
  | Viewport rat rat rat rat
  | DrawArrays_TRIANGLE_STRIP nat nat

record gl_state =
  next_object :: nat
  gl_calls :: "gl_call list"

definition template_text :: "string option \<Rightarrow> string" where
  \<comment> \<open>a \<open>string | null\<close> inside a template literal\<close>
  "template_text infoLog = (case infoLog of None \<Rightarrow> ''null'' | Some t \<Rightarrow> t)"

definition loadShader ::
  "gl_driver \<Rightarrow> shader_type \<Rightarrow> gl_state \<Rightarrow> (WebGLError + nat) \<times> gl_state" where
  "loadShader d t g =
     (if \<not> createShader_ok d t then (Inl (WebGLError ''Failed to create shader.''), g)
      else
        let shader = next_object g;
            g1 = \<lparr>next_object = Suc shader,
                  gl_calls = gl_calls g
                    @ [CreateShader t shader, ShaderSource shader t, CompileShader shader]\<rparr>
        in if \<not> COMPILE_STATUS d t
           then (Inl (WebGLError (''An error occurred compiling the shaders: ''
                    @ template_text (shaderInfoLog d t) @ ''.'')),
                 g1\<lparr>gl_calls := gl_calls g1 @ [DeleteShader shader]\<rparr>)
           else (Inr shader, g1))"

definition createShaderProgram :: "gl_driver \<Rightarrow> gl_state \<Rightarrow> (WebGLError + nat) \<times> gl_state" where
  "createShaderProgram d g =
     (case loadShader d VERTEX_SHADER g of
        (Inl e, g1) \<Rightarrow> (Inl e, g1)
      | (Inr vertexShader, g1) \<Rightarrow>
          (case loadShader d FRAGMENT_SHADER g1 of
             (Inl e, g2) \<Rightarrow> (Inl e, g2)
           | (Inr fragmentShader, g2) \<Rightarrow>
               if \<not> createProgram_ok d
               then (Inl (WebGLError ''Failed to create shader program.''), g2)
               else
                 let shaderProgram = next_object g2;
                     g3 = \<lparr>next_object = Suc shaderProgram,
                           gl_calls = gl_calls g2
                             @ [CreateProgram shaderProgram,
                                AttachShader shaderProgram vertexShader,
                                AttachShader shaderProgram fragmentShader,
                                DeleteShader vertexShader, DeleteShader fragmentShader,
                                LinkProgram shaderProgram]\<rparr>
                 in if \<not> LINK_STATUS d
                    then (Inl (WebGLError (''Unable to initialize the shader program: ''
                             @ template_text (programInfoLog d) @ ''.'')),
                          g3\<lparr>gl_calls := gl_calls g3 @ [DeleteProgram shaderProgram]\<rparr>)
                    else (Inr shaderProgram, g3)))"

record AttribLocations =
  vertexPosition :: int

record UniformLocations =
  gridBottomLeft :: nat
  gridCellSize :: nat
  gridCellCount :: nat

record GridRendererProgramInfo =
  program :: nat
  attribLocations :: AttribLocations
  uniformLocations :: UniformLocations

definition createGridRendererProgram ::
  "gl_driver \<Rightarrow> gl_state \<Rightarrow> (WebGLError + GridRendererProgramInfo) \<times> gl_state" where
  "createGridRendererProgram d g =
     (case createShaderProgram d g of
        (Inl e, g1) \<Rightarrow> (Inl e, g1)
      | (Inr shaderProgram, g1) \<Rightarrow>
          (Inr \<lparr>program = shaderProgram,
                attribLocations =
                  \<lparr>vertexPosition = attribLocation d shaderProgram ''aVertexPosition''\<rparr>,
                uniformLocations =
                  \<lparr>gridBottomLeft = uniformLocation d shaderProgram ''uGridBottomLeft'',
                   gridCellSize = uniformLocation d shaderProgram ''uGridCellSize'',
                   gridCellCount = uniformLocation d shaderProgram ''uGridCellCount''\<rparr>\<rparr>,
           g1))"

record GridRendererBuffers =
  position :: nat

definition bufferVerts :: "rat list" where
  "bufferVerts = [1, 1, - 1, 1, 1, - 1, - 1, - 1]"

definition createGridRendererBuffers ::
  "gl_driver \<Rightarrow> gl_state \<Rightarrow> (WebGLError + GridRendererBuffers) \<times> gl_state" where
  "createGridRendererBuffers d g =
     (if \<not> createBuffer_ok d then (Inl (WebGLError ''Failed to create position buffer''), g)
      else
        let positionBuffer = next_object g
        in (Inr \<lparr>position = positionBuffer\<rparr>,
            \<lparr>next_object = Suc positionBuffer,
             gl_calls = gl_calls g
               @ [CreateBuffer positionBuffer, BindBuffer positionBuffer,
                  BufferData bufferVerts]\<rparr>))"

definition drawGridScene ::
  "GridRendererProgramInfo \<Rightarrow> GridRendererBuffers \<Rightarrow> GridParams \<Rightarrow> gl_call list" where
  "drawGridScene programInfo gridRendererBuffers p =
     [ClearColor 0 0 0 0, ClearDepth 1, Enable_DEPTH_TEST, DepthFunc_LEQUAL, Clear,
      BindBuffer (position gridRendererBuffers),
      VertexAttribPointer (vertexPosition (attribLocations programInfo)) 2,
      EnableVertexAttribArray (vertexPosition (attribLocations programInfo)),
      Uniform2fv (gridBottomLeft (uniformLocations programInfo))
        [fst (drawGridScene_gridBottomLeft p), snd (drawGridScene_gridBottomLeft p)],
      Uniform2fv (gridCellSize (uniformLocations programInfo))
        [fst (drawGridScene_gridCellSize p), snd (drawGridScene_gridCellSize p)],
      Uniform2fv (gridCellCount (uniformLocations programInfo))
        [fst (drawGridScene_gridCellCount p), snd (drawGridScene_gridCellCount p)],
      UseProgram (program programInfo),
      Viewport 0 0 (fst (canvasSize p) * renderScale p) (snd (canvasSize p) * renderScale p),
      DrawArrays_TRIANGLE_STRIP 0 4]"

text \<open>
  A \<open>GridRenderer\<close> keeps the canvas it was made for (here: its identity), the program
  information and the buffers. The class has a constructor, \<open>gridCanvas\<close> and \<open>render\<close>, and
  no method that releases anything.
\<close>

record GridRenderer =
  canvas :: nat
  gridRendererProgramInfo :: GridRendererProgramInfo
  gridRendererBuffers :: GridRendererBuffers

definition new_GridRenderer ::
  "gl_driver \<Rightarrow> HTMLCanvasElement \<Rightarrow> gl_state \<Rightarrow> (WebGLError + GridRenderer) \<times> gl_state" where
  "new_GridRenderer d cv g =
     (if \<not> contextWebGL cv then (Inl (WebGLError ''Can't get WebGL context.''), g)
      else
        (case createGridRendererProgram d g of
           (Inl e, g1) \<Rightarrow> (Inl e, g1)
         | (Inr info, g1) \<Rightarrow>
             (case createGridRendererBuffers d g1 of
                (Inl e, g2) \<Rightarrow> (Inl e, g2)
              | (Inr buffers, g2) \<Rightarrow>
                  (Inr \<lparr>canvas = canvas_id cv, gridRendererProgramInfo = info,
                        gridRendererBuffers = buffers\<rparr>, g2))))"

definition gridCanvas :: "GridRenderer \<Rightarrow> nat" where
  "gridCanvas r = canvas r"

definition render ::
  "GridRenderer \<Rightarrow> HTMLCanvasElement \<Rightarrow> GridParams \<Rightarrow> gl_state
     \<Rightarrow> HTMLCanvasElement \<times> gl_state" where
  \<comment> \<open>the second argument is the renderer's own canvas, which \<open>render\<close> resizes\<close>
  "render r cv p g =
     (cv\<lparr>width := unsigned_long (fst (canvasSize p) * renderScale p),
         height := unsigned_long (snd (canvasSize p) * renderScale p)\<rparr>,
      g\<lparr>gl_calls := gl_calls g
         @ drawGridScene (gridRendererProgramInfo r) (gridRendererBuffers r) p\<rparr>)"

section \<open>The grid effect (App.tsx)\<close>

record app_state =
  refWebGLGridRenderer :: "GridRenderer option"
  gl :: gl_state

definition grid_effect ::
  "gl_driver \<Rightarrow> bool \<Rightarrow> HTMLCanvasElement option \<Rightarrow> GridParams \<Rightarrow> app_state
     \<Rightarrow> (WebGLError + HTMLCanvasElement option) \<times> app_state" where
  \<comment> \<open>the result is the error thrown out of the effect, or the grid canvas after it\<close>
  "grid_effect d webGLGrid refGridCanvas p st =
     (case refGridCanvas of
        None \<Rightarrow> (Inr None, st)
      | Some cv \<Rightarrow>
          if webGLGrid then
            (if (case refWebGLGridRenderer st of
                   None \<Rightarrow> True
                 | Some gridRenderer \<Rightarrow> gridCanvas gridRenderer \<noteq> canvas_id cv)
             then
               (case new_GridRenderer d cv (gl st) of
                  (Inl e, g1) \<Rightarrow> (Inl e, st\<lparr>gl := g1\<rparr>)
                | (Inr gridRenderer, g1) \<Rightarrow>
                    (Inr (Some (fst (render gridRenderer cv p g1))),
                     \<lparr>refWebGLGridRenderer = Some gridRenderer,
                      gl = snd (render gridRenderer cv p g1)\<rparr>))
             else
               (case refWebGLGridRenderer st of
                  None \<Rightarrow> (Inr (Some cv), st)
                | Some gridRenderer \<Rightarrow>
                    (Inr (Some (fst (render gridRenderer cv p (gl st)))),
                     st\<lparr>gl := snd (render gridRenderer cv p (gl st))\<rparr>)))
          else (Inr (Some (renderGrid cv p)), st))"

text \<open>
  Every answer of the context that lets the constructor run to its end, and the calls
  that release a program or a buffer made before the object counter reached \<open>n\<close>.
\<close>

definition initialisable :: "gl_driver \<Rightarrow> HTMLCanvasElement \<Rightarrow> bool" where
  "initialisable d cv =
     (contextWebGL cv
      \<and> createShader_ok d VERTEX_SHADER \<and> COMPILE_STATUS d VERTEX_SHADER
      \<and> createShader_ok d FRAGMENT_SHADER \<and> COMPILE_STATUS d FRAGMENT_SHADER
      \<and> createProgram_ok d \<and> LINK_STATUS d \<and> createBuffer_ok d)"

fun releases_older :: "nat \<Rightarrow> gl_call \<Rightarrow> bool" where
  "releases_older n (DeleteProgram q) = (q < n)"
| "releases_older n (DeleteBuffer b) = (b < n)"
| "releases_older n c = False"

definition driver_ok :: gl_driver where
  "driver_ok =
     \<lparr>createShader_ok = (\<lambda>t. True), COMPILE_STATUS = (\<lambda>t. True),
      shaderInfoLog = (\<lambda>t. Some []), createProgram_ok = True, LINK_STATUS = True,
      programInfoLog = Some [], attribLocation = (\<lambda>prog name. 0),
      uniformLocation = (\<lambda>prog name.
        if name = ''uGridBottomLeft'' then 0 else if name = ''uGridCellSize'' then 1 else 2),
      createBuffer_ok = True\<rparr>"

definition driver_compile_fails :: gl_driver where
  "driver_compile_fails =
     driver_ok\<lparr>COMPILE_STATUS := (\<lambda>t. t = VERTEX_SHADER),
       shaderInfoLog := (\<lambda>t. Some ''ERROR: 0:21: syntax error'')\<rparr>"

definition driver_link_fails :: gl_driver where
  "driver_link_fails =
     driver_ok\<lparr>LINK_STATUS := False, programInfoLog := Some ''varyings do not match''\<rparr>"

definition initial_app :: app_state where
  "initial_app = \<lparr>refWebGLGridRenderer = None, gl = \<lparr>next_object = 0, gl_calls = []\<rparr>\<rparr>"

definition app_after_first :: app_state where
  "app_after_first =
     snd (grid_effect driver_ok True (Some (blank_canvas 1 False True)) params_100 initial_app)"

definition first_renderer :: GridRenderer where
  "first_renderer =
     \<lparr>canvas = 1,
      gridRendererProgramInfo =
        \<lparr>program = 2, attribLocations = \<lparr>vertexPosition = 0\<rparr>,
         uniformLocations = \<lparr>gridBottomLeft = 0, gridCellSize = 1, gridCellCount = 2\<rparr>\<rparr>,
      gridRendererBuffers = \<lparr>position = 3\<rparr>\<rparr>"

definition app_after_second :: app_state where
  "app_after_second =
     snd (grid_effect driver_ok True (Some (blank_canvas 2 False True)) params_100
       app_after_first)"

section \<open>The extraction effect (App.tsx)\<close>

text \<open>
  An \<open>ImageData\<close>: width, height and the byte array \<open>data\<close> (a \<open>Uint8ClampedArray\<close>, four
  bytes per pixel, row-major).
\<close>

record ImageData =
  img_width :: nat
  img_height :: nat
  data :: "nat list"

text \<open>
  The channel sums start at \<open>0\<close> and grow by \<open>data[i]\<close>. Reading a typed array outside its
  bounds yields \<open>undefined\<close>, and a number plus \<open>undefined\<close> is \<open>NaN\<close>, which every later
  addition and division keeps and which compares false with everything. So the sums are
  numbers that may be \<open>NaN\<close>.
\<close>

datatype number = Num rat | NaN

definition sample :: "nat list \<Rightarrow> int \<Rightarrow> nat option" where
  \<comment> \<open>\<open>data[i]\<close>; \<open>None\<close> is \<open>undefined\<close>.\<close>
  "sample d i = (if 0 \<le> i \<and> nat i < length d then Some (d ! nat i) else None)"

fun plus_sample :: "number \<Rightarrow> nat option \<Rightarrow> number" where
  \<comment> \<open>\<open>sum += data[i]\<close>\<close>
  "plus_sample (Num s) (Some v) = Num (s + of_nat v)"
| "plus_sample (Num s) None = NaN"
| "plus_sample NaN v = NaN"

fun divide_count :: "number \<Rightarrow> nat \<Rightarrow> number" where
  \<comment> \<open>\<open>sum / count\<close>, only evaluated under \<open>count > 0\<close>\<close>
  "divide_count (Num s) n = Num (s / of_nat n)"
| "divide_count NaN n = NaN"

fun exceeds :: "number \<Rightarrow> rat \<Rightarrow> bool" where
  \<comment> \<open>the comparison \<open>>\<close>\<close>
  "exceeds (Num s) t = (t < s)"
| "exceeds NaN t = False"

text \<open>The source-pixel bounds of cell \<open>(x, y)\<close>.\<close>

definition cell_sx :: "GridParams \<Rightarrow> nat \<Rightarrow> int" where
  "cell_sx p x = Math_round (fst (gridOffset p) + of_nat x * fst (cellSize p))"

definition cell_ex :: "GridParams \<Rightarrow> nat \<Rightarrow> int" where
  "cell_ex p x = Math_round (of_int (cell_sx p x) + fst (cellSize p))"

definition cell_sy :: "GridParams \<Rightarrow> nat \<Rightarrow> int" where
  "cell_sy p y = Math_round (snd (gridOffset p) + of_nat y * snd (cellSize p))"

definition cell_ey :: "GridParams \<Rightarrow> nat \<Rightarrow> int" where
  "cell_ey p y = Math_round (of_int (cell_sy p y) + snd (cellSize p))"

record accumulator =
  rsum :: number
  gsum :: number
  bsum :: number
  count :: nat

definition sourcePixelIndex :: "ImageData \<Rightarrow> int \<Rightarrow> int \<Rightarrow> int" where
  "sourcePixelIndex src iy ix = (iy * int (img_width src) + ix) * 4"

definition add_pixel :: "ImageData \<Rightarrow> int \<Rightarrow> int \<Rightarrow> accumulator \<Rightarrow> accumulator" where
  \<comment> \<open>the body of the innermost loop\<close>
  "add_pixel src iy ix s =
     \<lparr>rsum = plus_sample (rsum s) (sample (data src) (sourcePixelIndex src iy ix)),
      gsum = plus_sample (gsum s) (sample (data src) (sourcePixelIndex src iy ix + 1)),
      bsum = plus_sample (bsum s) (sample (data src) (sourcePixelIndex src iy ix + 2)),
      count = Suc (count s)\<rparr>"

definition sum_cell :: "ImageData \<Rightarrow> int \<Rightarrow> int \<Rightarrow> int \<Rightarrow> int \<Rightarrow> accumulator" where
  \<comment> \<open>\<open>for (iy = sy; iy < ey; ++iy) for (ix = sx; ix < ex; ++ix)\<close>\<close>
  "sum_cell src sx ex sy ey =
     fold (\<lambda>iy. fold (\<lambda>ix. add_pixel src iy ix) [sx..ex - 1]) [sy..ey - 1]
       \<lparr>rsum = Num 0, gsum = Num 0, bsum = Num 0, count = 0\<rparr>"

definition cell_on :: "accumulator \<Rightarrow> bool" where
  "cell_on s =
     (if 0 < count s
      then exceeds (divide_count (rsum s) (count s)) 127
         \<or> exceeds (divide_count (gsum s) (count s)) 127
         \<or> exceeds (divide_count (bsum s) (count s)) 127
      else False)"

definition write_cell :: "nat \<Rightarrow> nat \<Rightarrow> bool \<Rightarrow> ImageData \<Rightarrow> ImageData" where
  \<comment> \<open>the four stores into \<open>pixelData.data\<close>; a store outside a typed array is ignored\<close>
  "write_cell y x on pixelData =
     (let pixelIndex = (y * img_width pixelData + x) * 4;
          v = (if on then 255 else 0)
      in pixelData\<lparr>data := (data pixelData)
           [pixelIndex := v, pixelIndex + 1 := v, pixelIndex + 2 := v, pixelIndex + 3 := 255]\<rparr>)"

definition cell_sums :: "ImageData \<Rightarrow> GridParams \<Rightarrow> nat \<Rightarrow> nat \<Rightarrow> accumulator" where
  "cell_sums src p y x =
     sum_cell src (cell_sx p x) (cell_ex p x) (cell_sy p y) (cell_ey p y)"

definition extract_cell :: "ImageData \<Rightarrow> GridParams \<Rightarrow> nat \<Rightarrow> nat \<Rightarrow> ImageData \<Rightarrow> ImageData" where
  "extract_cell src p y x pixelData = write_cell y x (cell_on (cell_sums src p y x)) pixelData"

definition extract_loops :: "ImageData \<Rightarrow> GridParams \<Rightarrow> ImageData \<Rightarrow> ImageData" where
  \<comment> \<open>\<open>for (y = 0; y < pixelsHeight; ++y) for (x = 0; x < pixelsWidth; ++x)\<close>: the counters
     run over the naturals below the (possibly fractional) bounds\<close>
  "extract_loops src p pixelData =
     fold (\<lambda>y. fold (\<lambda>x. extract_cell src p y x) [0..<nat \<lceil>pixelsWidth p\<rceil>])
       [0..<nat \<lceil>pixelsHeight p\<rceil>] pixelData"

text \<open>
  \<open>createImageData(sw, sh)\<close> converts its arguments to integers by truncation, raises
  \<open>IndexSizeError\<close> when one of them is zero, and otherwise yields a transparent black
  image of \<open>|sw| \<times> |sh|\<close> pixels. \<open>getImageData(0, 0, w, h)\<close> raises the same error for an
  empty rectangle. (The wrap-around of the conversion at \<open>2^31\<close> is left out: the counts
  are bounded by \<open>maxCells\<close>.)
\<close>

definition createImageData :: "rat \<Rightarrow> rat \<Rightarrow> ImageData option" where
  "createImageData sw sh =
     (if truncate_number sw = 0 \<or> truncate_number sh = 0 then None
      else Some \<lparr>img_width = nat \<bar>truncate_number sw\<bar>, img_height = nat \<bar>truncate_number sh\<bar>,
        data = replicate (4 * nat \<bar>truncate_number sw\<bar> * nat \<bar>truncate_number sh\<bar>) 0\<rparr>)"

definition getImageData :: "ImageData \<Rightarrow> ImageData option" where
  \<comment> \<open>the whole bitmap of the image canvas\<close>
  "getImageData imageCanvas =
     (if img_width imageCanvas = 0 \<or> img_height imageCanvas = 0 then None
      else Some imageCanvas)"

datatype extraction = Nothing_to_extract | IndexSizeError | Extracted ImageData

definition extraction_effect :: "ImageData \<Rightarrow> GridParams \<Rightarrow> extraction" where
  \<comment> \<open>the effect from the cell counts on, both canvases and their 2D contexts being
     present; the result is the \<open>pixelData\<close> handed to \<open>putImageData\<close>\<close>
  "extraction_effect imageCanvas p =
     (if pixelsWidth p = 0 \<or> pixelsHeight p = 0 then Nothing_to_extract
      else case createImageData (pixelsWidth p) (pixelsHeight p) of
        None \<Rightarrow> IndexSizeError
      | Some pixelData \<Rightarrow>
          (case getImageData imageCanvas of
             None \<Rightarrow> IndexSizeError
           | Some sourceImageData \<Rightarrow> Extracted (extract_loops sourceImageData p pixelData)))"

text \<open>
  The words of the specification for one cell: the mean of a channel over the pixels
  \<open>sx \<le> ix < ex\<close>, \<open>sy \<le> iy < ey\<close>, and "on" when the rectangle is not empty and some mean
  exceeds 127.
\<close>

definition cell_pixels :: "int \<Rightarrow> int \<Rightarrow> int \<Rightarrow> int \<Rightarrow> (int \<times> int) list" where
  "cell_pixels sx ex sy ey = List.product [sy..ey - 1] [sx..ex - 1]"




definition in_buffer :: "ImageData \<Rightarrow> int \<times> int \<Rightarrow> bool" where
  \<comment> \<open>the flat index of the sampled position lies inside \<open>data\<close>\<close>
  "in_buffer src q =
     (0 \<le> sourcePixelIndex src (fst q) (snd q)
        \<and> nat (sourcePixelIndex src (fst q) (snd q)) < length (data src))"

text \<open>The two sampling loops as one pass over the list of sampled positions.\<close>

definition no_pixels :: accumulator where
  "no_pixels = \<lparr>rsum = Num 0, gsum = Num 0, bsum = Num 0, count = 0\<rparr>"

definition add_pixels :: "ImageData \<Rightarrow> (int \<times> int) list \<Rightarrow> accumulator \<Rightarrow> accumulator" where
  "add_pixels src ps s = fold (\<lambda>(iy, ix). add_pixel src iy ix) ps s"

text \<open>The bytes of the output pixel \<open>(x, y)\<close>, and the two output loops as one pass.\<close>

definition rgba :: "ImageData \<Rightarrow> nat \<Rightarrow> nat \<Rightarrow> nat \<times> nat \<times> nat \<times> nat" where
  "rgba img y x =
     (let i = (y * img_width img + x) * 4
      in (data img ! i, data img ! (i + 1), data img ! (i + 2), data img ! (i + 3)))"

definition extract_cells ::
  "ImageData \<Rightarrow> GridParams \<Rightarrow> (nat \<times> nat) list \<Rightarrow> ImageData \<Rightarrow> ImageData" where
  "extract_cells src p cs pixelData = fold (\<lambda>(y, x). extract_cell src p y x) cs pixelData"




definition params_overhang :: GridParams where
  "params_overhang = \<lparr>canvasSize = (2, 2), maxCells = (500, 500), cellSize = (3 / 2, 1),
     gridOffset = (1 / 2, 0), renderScale = 1\<rparr>"

definition white_2x2 :: ImageData where
  "white_2x2 = \<lparr>img_width = 2, img_height = 2, data = replicate 16 255\<rparr>"

section \<open>Geometry\<close>

lemma floor_quotient_times:
  fixes a c :: rat
  assumes "0 < c"
  shows "c * of_int \<lfloor>a / c\<rfloor> \<le> a"
proof -
  have "(of_int \<lfloor>a / c\<rfloor> :: rat) \<le> a / c" by (rule of_int_floor_le)
  then have "(of_int \<lfloor>a / c\<rfloor> :: rat) * c \<le> a"
    using assms pos_le_divide_eq [of c "of_int \<lfloor>a / c\<rfloor>" a] by blast
  then show ?thesis by (simp add: mult.commute)
qed

lemma min_floor_times:
  fixes a c m :: rat
  assumes "0 < c"
  shows "c * min m (of_int \<lfloor>a / c\<rfloor>) \<le> a"
proof -
  have "c * min m (of_int \<lfloor>a / c\<rfloor>) \<le> c * of_int \<lfloor>a / c\<rfloor>"
    using assms by (intro mult_left_mono) simp_all
  also have "\<dots> \<le> a" using assms by (rule floor_quotient_times)
  finally show ?thesis .
qed



text \<open>
  C2, as stated, fails: nothing clamps a negative floor to zero. With a \<open>100 \<times> 100\<close> canvas
  and the grid dragged to offset 108 with 8-unit cells, the floor is \<open>-1\<close> and the minimum
  with \<open>maxCells = 500\<close> is \<open>-1\<close> on both axes, in the renderer and in the extraction
  effect.
\<close>

theorem cell_count_negative_counterexample:
  "fst (canvasSize params_offset_beyond) < fst (gridOffset params_offset_beyond)
    \<and> 0 < fst (cellSize params_offset_beyond) \<and> 0 \<le> fst (maxCells params_offset_beyond)
    \<and> renderGrid_gridPixels params_offset_beyond = (- 1, - 1)
    \<and> pixelsWidth params_offset_beyond = - 1
    \<and> pixelsHeight params_offset_beyond = - 1"
  by (simp add: params_offset_beyond_def renderGrid_gridPixels_def pixelsWidth_def
      pixelsHeight_def Math_floor_def)

lemma cell_count_sign:
  fixes C ofs c m :: rat
  assumes "0 < c" and "0 \<le> m"
  shows "(ofs \<le> C \<longrightarrow> 0 \<le> min m (Math_floor ((C - ofs) / c)))
    \<and> (C < ofs \<longrightarrow> min m (Math_floor ((C - ofs) / c)) \<le> - 1)"
proof (intro conjI impI)
  assume "ofs \<le> C"
  then have "0 \<le> (C - ofs) / c" using assms(1) by simp
  then have "0 \<le> \<lfloor>(C - ofs) / c\<rfloor>" by simp
  then show "0 \<le> min m (Math_floor ((C - ofs) / c))"
    using assms(2) by (simp add: Math_floor_def)
next
  assume "C < ofs"
  then have "(C - ofs) / c < 0" using assms(1) by (simp add: divide_neg_pos)
  then have "\<lfloor>(C - ofs) / c\<rfloor> \<le> - 1"
    using floor_less_iff [of "(C - ofs) / c" 0] by linarith
  then have "(of_int \<lfloor>(C - ofs) / c\<rfloor> :: rat) \<le> of_int (- 1)"
    by (simp only: of_int_le_iff)
  then show "min m (Math_floor ((C - ofs) / c)) \<le> - 1"
    by (simp add: Math_floor_def min_le_iff_disj)
qed

text \<open>
  C2, amended. With \<open>cellSize[i] > 0\<close> and \<open>maxCells[i] \<ge> 0\<close>, the cell count of an axis is
  non-negative exactly as long as the grid offset does not exceed the canvas size on
  that axis; when \<open>canvasSize[i] < gridOffset[i]\<close> the count is the unclamped minimum and is
  at most \<open>-1\<close>. This holds for the renderer's \<open>gridPixels\<close> and for the extraction
  effect's \<open>pixelsWidth\<close> and \<open>pixelsHeight\<close>.
\<close>

theorem cell_count_nonneg_iff_offset_inside:
  assumes "0 < fst (cellSize p)" and "0 < snd (cellSize p)"
    and "0 \<le> fst (maxCells p)" and "0 \<le> snd (maxCells p)"
  shows "(fst (gridOffset p) \<le> fst (canvasSize p) \<longrightarrow>
            0 \<le> fst (renderGrid_gridPixels p) \<and> 0 \<le> pixelsWidth p)
    \<and> (snd (gridOffset p) \<le> snd (canvasSize p) \<longrightarrow>
            0 \<le> snd (renderGrid_gridPixels p) \<and> 0 \<le> pixelsHeight p)
    \<and> (fst (canvasSize p) < fst (gridOffset p) \<longrightarrow>
            fst (renderGrid_gridPixels p) \<le> - 1 \<and> pixelsWidth p \<le> - 1)
    \<and> (snd (canvasSize p) < snd (gridOffset p) \<longrightarrow>
            snd (renderGrid_gridPixels p) \<le> - 1 \<and> pixelsHeight p \<le> - 1)"
  using cell_count_sign [OF assms(1) assms(3), of "fst (gridOffset p)" "fst (canvasSize p)"]
    cell_count_sign [OF assms(2) assms(4), of "snd (gridOffset p)" "snd (canvasSize p)"]
  by (simp add: renderGrid_gridPixels_def pixelsWidth_def pixelsHeight_def)

theorem cell_count_nonneg_iff_offset_inside_witness:
  "0 \<le> fst (renderGrid_gridPixels params_100) \<and> 0 \<le> pixelsHeight params_100
    \<and> fst (renderGrid_gridPixels params_offset_beyond) \<le> - 1
    \<and> pixelsHeight params_offset_beyond \<le> - 1"
proof -
  have a: "0 < fst (cellSize params_100)" "0 < snd (cellSize params_100)"
    "0 \<le> fst (maxCells params_100)" "0 \<le> snd (maxCells params_100)"
    "fst (gridOffset params_100) \<le> fst (canvasSize params_100)"
    "snd (gridOffset params_100) \<le> snd (canvasSize params_100)"
    by (simp_all add: params_100_def)
  have b: "0 < fst (cellSize params_offset_beyond)" "0 < snd (cellSize params_offset_beyond)"
    "0 \<le> fst (maxCells params_offset_beyond)" "0 \<le> snd (maxCells params_offset_beyond)"
    "fst (canvasSize params_offset_beyond) < fst (gridOffset params_offset_beyond)"
    "snd (canvasSize params_offset_beyond) < snd (gridOffset params_offset_beyond)"
    by (simp_all add: params_offset_beyond_def)
  show ?thesis
    using cell_count_nonneg_iff_offset_inside [OF a(1-4)] a(5,6)
      cell_count_nonneg_iff_offset_inside [OF b(1-4)] b(5,6)
    by blast
qed

text \<open>
  The rounding on known values: an integer is kept, and \<open>1/10\<close> and \<open>1/3\<close> become the doubles
  \<open>0x1.999999999999ap-4\<close> and \<open>0x1.5555555555555p-2\<close>.
\<close>

lemma fl_examples:
  "fl 411 = 411 \<and> fl (- 3) = - 3 \<and> fl (1 / 10) = 3602879701896397 / 2 ^ 55
    \<and> fl (1 / 3) = 6004799503160661 / 2 ^ 54"
  by code_simp

lemma fl_cell_size: "fl (137 / 58) = 5318906456463431 / 2 ^ 51"
  by code_simp
lemma fl_quotient: "fl (fl (431 - 20) / (5318906456463431 / 2 ^ 51)) = 174"
  by code_simp
lemma fl_product: "fl ((5318906456463431 / 2 ^ 51) * 174) = 411 + 1 / 2 ^ 44"
  by code_simp
lemma fl_sum: "fl (20 + (411 + 1 / 2 ^ 44)) = 431 + 1 / 2 ^ 44"
  by code_simp

lemma rounding_cell_size: "fst (cellSize params_rounding) = 5318906456463431 / 2 ^ 51"
  unfolding params_rounding_def by (simp only: GridParams.simps fst_conv fl_cell_size)

lemma rounding_count: "fst (renderGrid_gridPixels_double params_rounding) = 174"
proof -
  have "fst (canvasSize params_rounding) - fst (gridOffset params_rounding) = 431 - 20"
    by (simp add: params_rounding_def)
  moreover have "fst (maxCells params_rounding) = 500" by (simp add: params_rounding_def)
  ultimately have "fst (renderGrid_gridPixels_double params_rounding)
      = min 500 (Math_floor (fl (fl (431 - 20) / (5318906456463431 / 2 ^ 51))))"
    by (simp only: renderGrid_gridPixels_double_def fst_conv rounding_cell_size)
  then show ?thesis by (simp only: fl_quotient Math_floor_def) simp
qed

lemma rounding_extent: "fst (renderGrid_gridEnd_double params_rounding) = 431 + 1 / 2 ^ 44"
proof -
  have "fst (gridOffset params_rounding) = 20" by (simp add: params_rounding_def)
  then have "fst (renderGrid_gridEnd_double params_rounding)
      = fl (20 + fl ((5318906456463431 / 2 ^ 51) * 174))"
    by (simp only: renderGrid_gridEnd_double_def fst_conv rounding_cell_size rounding_count)
  then show ?thesis by (simp only: fl_product fl_sum)
qed

text \<open>
  C3, as stated, fails in the arithmetic the program runs. With canvas size 431, offset 20
  and cell size \<open>2.3620689655172415\<close> the quotient \<open>411 / cellSize\<close>, a little below 174, is
  rounded to the double 174; the count is 174, the product \<open>cellSize * 174\<close> is rounded to
  \<open>411.00000000000006\<close>, and the grid extent is \<open>431.00000000000006 = 431 + 2^-44\<close>, beyond the
  canvas.
\<close>

theorem grid_extent_rounding_counterexample:
  "0 < fst (cellSize params_rounding)
    \<and> fst (cellSize params_rounding) = 5318906456463431 / 2 ^ 51
    \<and> fst (renderGrid_gridPixels_double params_rounding) = 174
    \<and> fst (renderGrid_gridEnd_double params_rounding) = 431 + 1 / 2 ^ 44
    \<and> fst (canvasSize params_rounding) < fst (renderGrid_gridEnd_double params_rounding)"
proof -
  have "fst (canvasSize params_rounding) = 431" by (simp add: params_rounding_def)
  then show ?thesis
    by (simp add: rounding_cell_size rounding_count rounding_extent)
qed

text \<open>
  C3, amended. With \<open>cellSize[i] > 0\<close>, on both axes the cell count never exceeds
  \<open>maxCells[i]\<close>, in exact arithmetic and with every operation rounded, at each of the three
  places that compute it. The grid extent \<open>gridOffset[i] + cellSize[i] * cellCount[i]\<close> never
  exceeds \<open>canvasSize[i]\<close> when quotient, product and sum are exact.
\<close>

theorem clamping_invariant:
  assumes "0 < fst (cellSize p)" and "0 < snd (cellSize p)"
  shows "fst (renderGrid_gridPixels p) \<le> fst (maxCells p)
    \<and> snd (renderGrid_gridPixels p) \<le> snd (maxCells p)
    \<and> fst (renderGrid_gridPixels_double p) \<le> fst (maxCells p)
    \<and> snd (renderGrid_gridPixels_double p) \<le> snd (maxCells p)
    \<and> renderGrid_gridEnd p =
        (fst (gridOffset p) + fst (cellSize p) * fst (renderGrid_gridPixels p),
         snd (gridOffset p) + snd (cellSize p) * snd (renderGrid_gridPixels p))
    \<and> fst (renderGrid_gridEnd p) \<le> fst (canvasSize p)
    \<and> snd (renderGrid_gridEnd p) \<le> snd (canvasSize p)
    \<and> fst (drawGridScene_gridCellCount p) \<le> fst (maxCells p)
    \<and> snd (drawGridScene_gridCellCount p) \<le> snd (maxCells p)
    \<and> pixelsWidth p \<le> fst (maxCells p) \<and> pixelsHeight p \<le> snd (maxCells p)"
proof -
  have x: "fst (cellSize p) * min (fst (maxCells p))
      (of_int \<lfloor>(fst (canvasSize p) - fst (gridOffset p)) / fst (cellSize p)\<rfloor>)
      \<le> fst (canvasSize p) - fst (gridOffset p)"
    using assms(1) by (rule min_floor_times)
  have y: "snd (cellSize p) * min (snd (maxCells p))
      (of_int \<lfloor>(snd (canvasSize p) - snd (gridOffset p)) / snd (cellSize p)\<rfloor>)
      \<le> snd (canvasSize p) - snd (gridOffset p)"
    using assms(2) by (rule min_floor_times)
  have ex: "fst (renderGrid_gridEnd p) \<le> fst (canvasSize p)"
    using x by (simp add: renderGrid_gridEnd_def renderGrid_gridPixels_def Math_floor_def)
  have ey: "snd (renderGrid_gridEnd p) \<le> snd (canvasSize p)"
    using y by (simp add: renderGrid_gridEnd_def renderGrid_gridPixels_def Math_floor_def)
  show ?thesis
    using ex ey
    by (simp add: renderGrid_gridPixels_def renderGrid_gridPixels_double_def
        drawGridScene_gridCellCount_def pixelsWidth_def pixelsHeight_def renderGrid_gridEnd_def)
qed

theorem clamping_invariant_witness:
  "fst (renderGrid_gridPixels params_100) \<le> 8
    \<and> fst (renderGrid_gridPixels_double params_100) \<le> 8
    \<and> fst (renderGrid_gridEnd params_100) \<le> 100
    \<and> snd (renderGrid_gridEnd params_100) \<le> 100"
proof -
  have c: "0 < fst (cellSize params_100)" "0 < snd (cellSize params_100)"
    by (simp_all add: params_100_def)
  have m: "fst (maxCells params_100) = 8" "fst (canvasSize params_100) = 100"
    "snd (canvasSize params_100) = 100"
    by (simp_all add: params_100_def)
  from clamping_invariant [OF c]
  have "fst (renderGrid_gridPixels params_100) \<le> fst (maxCells params_100)"
    and "fst (renderGrid_gridPixels_double params_100) \<le> fst (maxCells params_100)"
    and "fst (renderGrid_gridEnd params_100) \<le> fst (canvasSize params_100)"
    and "snd (renderGrid_gridEnd params_100) \<le> snd (canvasSize params_100)"
    by blast+
  then show ?thesis by (simp only: m)
qed

section \<open>Cell rectangles\<close>














section \<open>Sampling one cell\<close>


lemma fold_product:
  "fold (\<lambda>a. fold (\<lambda>b. f a b) bs) as s = fold (\<lambda>(a, b). f a b) (List.product as bs) s"
proof (induction as arbitrary: s)
  case Nil
  then show ?case by simp
next
  case (Cons a as)
  have "fold (\<lambda>(a, b). f a b) (map (Pair a) bs) s = fold (f a) bs s"
    by (simp add: fold_map comp_def)
  then show ?case using Cons.IH by simp
qed

lemma sum_cell_add_pixels:
  "sum_cell src sx ex sy ey = add_pixels src (cell_pixels sx ex sy ey) no_pixels"
  by (simp add: sum_cell_def add_pixels_def cell_pixels_def fold_product no_pixels_def)

lemma add_pixels_Nil: "add_pixels src [] s = s"
  by (simp add: add_pixels_def)

lemma add_pixels_Cons:
  "add_pixels src (q # ps) s = add_pixels src ps (add_pixel src (fst q) (snd q) s)"
  by (simp add: add_pixels_def case_prod_beta)


lemma add_pixels_NaN:
  "(rsum s = NaN \<longrightarrow> rsum (add_pixels src ps s) = NaN)
   \<and> (gsum s = NaN \<longrightarrow> gsum (add_pixels src ps s) = NaN)
   \<and> (bsum s = NaN \<longrightarrow> bsum (add_pixels src ps s) = NaN)"
  by (induction ps arbitrary: s) (simp_all add: add_pixel_def add_pixels_Nil add_pixels_Cons)

lemma sample_outside:
  assumes "\<not> in_buffer src q" and "0 \<le> c" and "c \<le> 3"
  shows "sample (data src) (sourcePixelIndex src (fst q) (snd q) + c) = None"
proof (cases "0 \<le> sourcePixelIndex src (fst q) (snd q)")
  case True
  then have "length (data src) \<le> nat (sourcePixelIndex src (fst q) (snd q))"
    using assms(1) by (simp add: in_buffer_def)
  then show ?thesis using assms(2) True by (simp add: sample_def)
next
  case False
  define m where "m = fst q * int (img_width src) + snd q"
  have "sourcePixelIndex src (fst q) (snd q) = 4 * m"
    by (simp add: sourcePixelIndex_def m_def)
  then have "sourcePixelIndex src (fst q) (snd q) \<le> - 4" using False by presburger
  then show ?thesis using assms(3) by (simp add: sample_def)
qed

lemma plus_sample_None: "plus_sample s None = NaN"
  by (cases s) simp_all

lemma add_pixel_outside:
  assumes "\<not> in_buffer src q"
  shows "rsum (add_pixel src (fst q) (snd q) s) = NaN
    \<and> gsum (add_pixel src (fst q) (snd q) s) = NaN
    \<and> bsum (add_pixel src (fst q) (snd q) s) = NaN"
  using sample_outside [OF assms, of 0] sample_outside [OF assms, of 1]
    sample_outside [OF assms, of 2]
  by (simp add: add_pixel_def plus_sample_None)

lemma add_pixels_outside:
  assumes "\<exists>q \<in> set ps. \<not> in_buffer src q"
  shows "rsum (add_pixels src ps s) = NaN \<and> gsum (add_pixels src ps s) = NaN
    \<and> bsum (add_pixels src ps s) = NaN"
  using assms
proof (induction ps arbitrary: s)
  case Nil
  then show ?case by simp
next
  case (Cons q ps)
  show ?case
  proof (cases "in_buffer src q")
    case True
    then have "\<exists>q \<in> set ps. \<not> in_buffer src q" using Cons.prems by auto
    then show ?thesis using Cons.IH by (simp add: add_pixels_Cons)
  next
    case False
    show ?thesis
      using add_pixel_outside [OF False, of s]
        add_pixels_NaN [of "add_pixel src (fst q) (snd q) s" src ps]
      by (simp add: add_pixels_Cons)
  qed
qed




section \<open>Writing the output bitmap\<close>


lemma write_cell_frame:
  "img_width (write_cell y x on pd) = img_width pd"
  "img_height (write_cell y x on pd) = img_height pd"
  "length (data (write_cell y x on pd)) = length (data pd)"
  by (simp_all add: write_cell_def Let_def)

lemma write_cell_other:
  assumes "y' * img_width pd + x' \<noteq> y * img_width pd + x"
  shows "rgba (write_cell y' x' on pd) y x = rgba pd y x"
  using assms by (simp add: rgba_def write_cell_def Let_def)

lemma write_cell_same:
  assumes "(y * img_width pd + x) * 4 + 3 < length (data pd)"
  shows "rgba (write_cell y x on pd) y x
     = (if on then (255, 255, 255, 255) else (0, 0, 0, 255))"
  using assms by (simp add: rgba_def write_cell_def Let_def)

lemma extract_cells_Nil: "extract_cells src p [] pd = pd"
  by (simp add: extract_cells_def)

lemma extract_cells_Cons:
  "extract_cells src p (c # cs) pd = extract_cells src p cs (extract_cell src p (fst c) (snd c) pd)"
  by (simp add: extract_cells_def case_prod_beta)

lemma extract_cells_frame:
  "img_width (extract_cells src p cs pd) = img_width pd
   \<and> img_height (extract_cells src p cs pd) = img_height pd
   \<and> length (data (extract_cells src p cs pd)) = length (data pd)"
  by (induction cs arbitrary: pd)
    (simp_all add: extract_cells_Nil extract_cells_Cons extract_cell_def write_cell_frame)

lemma extract_cells_other:
  assumes "\<forall>c \<in> set cs. fst c * img_width pd + snd c \<noteq> y * img_width pd + x"
  shows "rgba (extract_cells src p cs pd) y x = rgba pd y x"
  using assms
proof (induction cs arbitrary: pd)
  case Nil
  then show ?case by (simp add: extract_cells_Nil)
next
  case (Cons c cs)
  let ?pd = "extract_cell src p (fst c) (snd c) pd"
  have w: "img_width ?pd = img_width pd" by (simp add: extract_cell_def write_cell_frame)
  have "rgba (extract_cells src p cs ?pd) y x = rgba ?pd y x"
    using Cons.prems by (intro Cons.IH) (simp add: w)
  also have "\<dots> = rgba pd y x"
    using Cons.prems by (simp add: extract_cell_def write_cell_other)
  finally show ?case by (simp add: extract_cells_Cons)
qed

lemma row_major_inj:
  fixes w :: nat
  assumes "x < w" and "x' < w" and "y' * w + x' = y * w + x"
  shows "y' = y \<and> x' = x"
proof -
  have "(y' * w + x') div w = y'" "(y' * w + x') mod w = x'" using assms(2) by simp_all
  moreover have "(y * w + x) div w = y" "(y * w + x) mod w = x" using assms(1) by simp_all
  ultimately show ?thesis using assms(3) by metis
qed

lemma extract_cells_written:
  assumes "(y, x) \<in> set cs" and "\<forall>c \<in> set cs. snd c < img_width pd" 
    and "(y * img_width pd + x) * 4 + 3 < length (data pd)"
  shows "rgba (extract_cells src p cs pd) y x
     = (if cell_on (cell_sums src p y x) then (255, 255, 255, 255) else (0, 0, 0, 255))"
  using assms
proof (induction cs arbitrary: pd)
  case Nil
  then show ?case by simp
next
  case (Cons c cs)
  let ?pd = "extract_cell src p (fst c) (snd c) pd"
  have w: "img_width ?pd = img_width pd" and l: "length (data ?pd) = length (data pd)"
    by (simp_all add: extract_cell_def write_cell_frame)
  show ?case
  proof (cases "(y, x) \<in> set cs")
    case True
    have "rgba (extract_cells src p cs ?pd) y x
       = (if cell_on (cell_sums src p y x) then (255, 255, 255, 255) else (0, 0, 0, 255))"
      using True Cons.prems(2,3) by (intro Cons.IH) (simp_all add: w l)
    then show ?thesis by (simp add: extract_cells_Cons)
  next
    case False
    then have c: "c = (y, x)" using Cons.prems(1) by simp
    have xw: "x < img_width pd" using Cons.prems(2) c by simp
    have "\<forall>c' \<in> set cs. fst c' * img_width ?pd + snd c' \<noteq> y * img_width ?pd + x"
    proof
      fix c' assume c': "c' \<in> set cs"
      then have "snd c' < img_width pd" using Cons.prems(2) by simp
      moreover have "c' \<noteq> (y, x)" using c' False by auto
      ultimately show "fst c' * img_width ?pd + snd c' \<noteq> y * img_width ?pd + x"
        using row_major_inj [OF xw, of "snd c'" "fst c'" y] by (auto simp: w prod_eq_iff)
    qed
    then have "rgba (extract_cells src p cs ?pd) y x = rgba ?pd y x"
      by (rule extract_cells_other)
    also have "\<dots> = (if cell_on (cell_sums src p y x) then (255, 255, 255, 255) else (0, 0, 0, 255))"
      using Cons.prems(3) by (simp add: c extract_cell_def write_cell_same)
    finally show ?thesis by (simp add: extract_cells_Cons)
  qed
qed

lemma extract_loops_cells:
  "extract_loops src p pd
     = extract_cells src p (List.product [0..<nat \<lceil>pixelsHeight p\<rceil>] [0..<nat \<lceil>pixelsWidth p\<rceil>]) pd"
  by (simp add: extract_loops_def extract_cells_def fold_product)

lemma cell_index_bound:
  fixes w h :: nat
  assumes "x < w" and "y < h"
  shows "(y * w + x) * 4 + 3 < 4 * w * h"
proof -
  have "y * w + x < Suc y * w" using assms(1) by simp
  also have "\<dots> \<le> h * w" using assms(2) by (intro mult_le_mono1) simp
  finally have "y * w + x < w * h" by (simp add: mult.commute)
  then show ?thesis by simp
qed

lemma createImageData_nat:
  assumes "0 < w" and "0 < h"
  shows "createImageData (of_nat w) (of_nat h)
     = Some \<lparr>img_width = w, img_height = h, data = replicate (4 * w * h) 0\<rparr>"
  using assms by (simp add: createImageData_def truncate_number_def)

lemma extraction_effect_nat:
  assumes "pixelsWidth p = of_nat w" and "pixelsHeight p = of_nat h" and "0 < w" and "0 < h"
    and "0 < img_width src" and "0 < img_height src"
  shows "extraction_effect src p = Extracted (extract_cells src p (List.product [0..<h] [0..<w])
     \<lparr>img_width = w, img_height = h, data = replicate (4 * w * h) 0\<rparr>)"
  using assms(3-)
  by (simp add: extraction_effect_def assms(1,2) createImageData_nat getImageData_def
      extract_loops_cells)

section \<open>Threshold and encoding\<close>


lemma extraction_cell_written:
  assumes "pixelsWidth p = of_nat w" and "pixelsHeight p = of_nat h"
    and "x < w" and "y < h" and "0 < img_width src" and "0 < img_height src"
  shows "\<exists>out. extraction_effect src p = Extracted out \<and> img_width out = w
    \<and> img_height out = h
    \<and> rgba out y x
       = (if cell_on (cell_sums src p y x) then (255, 255, 255, 255) else (0, 0, 0, 255))"
proof -
  let ?pd = "\<lparr>img_width = w, img_height = h, data = replicate (4 * w * h) 0\<rparr>"
  let ?cs = "List.product [0..<h] [0..<w]"
  have pos: "0 < w" "0 < h" using assms(3,4) by simp_all
  have e: "extraction_effect src p = Extracted (extract_cells src p ?cs ?pd)"
    using assms(1,2) pos assms(5,6) by (rule extraction_effect_nat)
  have f: "img_width (extract_cells src p ?cs ?pd) = w"
    "img_height (extract_cells src p ?cs ?pd) = h"
    using extract_cells_frame [of src p ?cs ?pd] by simp_all
  have "rgba (extract_cells src p ?cs ?pd) y x
       = (if cell_on (cell_sums src p y x) then (255, 255, 255, 255) else (0, 0, 0, 255))"
  proof (rule extract_cells_written)
    show "(y, x) \<in> set ?cs" using assms(3,4) by simp
    show "\<forall>c \<in> set ?cs. snd c < img_width ?pd" by auto
    show "(y * img_width ?pd + x) * 4 + 3 < length (data ?pd)"
      using cell_index_bound [OF assms(3,4)] by simp
  qed
  then show ?thesis using e f by blast
qed



section \<open>Sampling outside the source image\<close>


text \<open>
  C10, as stated, fails: a sampled position outside the image does not always read
  \<open>undefined\<close>. On a white \<open>2 \<times> 2\<close> image with offset \<open>(0.5, 0)\<close> and cell size \<open>(1.5, 1)\<close>, cell
  \<open>(0, 0)\<close> samples the columns 1 and 2 of row 0. Column 2 is outside the image, but its
  flat index 8 is inside the buffer (it is the first pixel of row 1), the sums are 510 and
  the cell is "on". Cell \<open>(0, 1)\<close> samples column 2 of the last row, whose flat index 16 is
  outside the buffer, and is "off".
\<close>

theorem outside_image_sample_counterexample:
  "(0, 2) \<in> set (cell_pixels (cell_sx params_overhang 0) (cell_ex params_overhang 0)
       (cell_sy params_overhang 0) (cell_ey params_overhang 0))
    \<and> int (img_width white_2x2) \<le> 2
    \<and> cell_sums white_2x2 params_overhang 0 0
        = \<lparr>rsum = Num 510, gsum = Num 510, bsum = Num 510, count = 2\<rparr>
    \<and> cell_on (cell_sums white_2x2 params_overhang 0 0)
    \<and> extraction_effect white_2x2 params_overhang
        = Extracted \<lparr>img_width = 1, img_height = 2,
            data = [255, 255, 255, 255, 0, 0, 0, 255]\<rparr>"
  by code_simp

text \<open>
  C10, amended. If the flat index \<open>(iy * width + ix) * 4\<close> of at least one position sampled by
  a cell lies outside the source buffer, the three channel sums are \<open>NaN\<close>, the cell is
  "off", and the extraction still runs to its end and writes that cell as opaque black.
  A position beyond the right edge whose flat index is inside the buffer is read as the
  pixel of the following row with the same flat index, \<open>(ix - width, iy + 1)\<close>, and does
  not force the cell "off".
\<close>

theorem sample_outside_buffer_forces_off:
  assumes "q \<in> set (cell_pixels (cell_sx p x) (cell_ex p x) (cell_sy p y) (cell_ey p y))"
    and "\<not> in_buffer src q"
  shows "rsum (cell_sums src p y x) = NaN \<and> gsum (cell_sums src p y x) = NaN
    \<and> bsum (cell_sums src p y x) = NaN
    \<and> \<not> cell_on (cell_sums src p y x)
    \<and> (pixelsWidth p = of_nat w \<and> pixelsHeight p = of_nat h \<and> x < w \<and> y < h
          \<and> 0 < img_width src \<and> 0 < img_height src \<longrightarrow>
        (\<exists>out. extraction_effect src p = Extracted out \<and> rgba out y x = (0, 0, 0, 255)))
    \<and> sourcePixelIndex src iy (ix + int (img_width src)) = sourcePixelIndex src (iy + 1) ix"
proof -
  have "\<exists>q \<in> set (cell_pixels (cell_sx p x) (cell_ex p x) (cell_sy p y) (cell_ey p y)).
      \<not> in_buffer src q"
    using assms by blast
  then have nan: "rsum (cell_sums src p y x) = NaN \<and> gsum (cell_sums src p y x) = NaN
    \<and> bsum (cell_sums src p y x) = NaN"
    unfolding cell_sums_def sum_cell_add_pixels by (rule add_pixels_outside)
  then have off: "\<not> cell_on (cell_sums src p y x)" by (simp add: cell_on_def)
  have out: "\<exists>out. extraction_effect src p = Extracted out \<and> rgba out y x = (0, 0, 0, 255)"
    if "pixelsWidth p = of_nat w \<and> pixelsHeight p = of_nat h \<and> x < w \<and> y < h
          \<and> 0 < img_width src \<and> 0 < img_height src"
    using extraction_cell_written [of p w h x y src] that off by auto
  have idx: "sourcePixelIndex src iy (ix + int (img_width src)) = sourcePixelIndex src (iy + 1) ix"
    by (simp add: sourcePixelIndex_def algebra_simps)
  show ?thesis using nan off out idx by blast
qed

theorem sample_outside_buffer_forces_off_witness:
  "(1, 2) \<in> set (cell_pixels (cell_sx params_overhang 0) (cell_ex params_overhang 0)
       (cell_sy params_overhang 1) (cell_ey params_overhang 1))
    \<and> \<not> in_buffer white_2x2 (1, 2)
    \<and> rsum (cell_sums white_2x2 params_overhang 1 0) = NaN
    \<and> \<not> cell_on (cell_sums white_2x2 params_overhang 1 0)
    \<and> (\<exists>out. extraction_effect white_2x2 params_overhang = Extracted out
          \<and> rgba out 1 0 = (0, 0, 0, 255))"
proof -
  have q: "(1, 2) \<in> set (cell_pixels (cell_sx params_overhang 0) (cell_ex params_overhang 0)
       (cell_sy params_overhang 1) (cell_ey params_overhang 1))"
    by code_simp
  have o: "\<not> in_buffer white_2x2 (1, 2)" by code_simp
  have n: "pixelsWidth params_overhang = of_nat 1 \<and> pixelsHeight params_overhang = of_nat 2
     \<and> (0::nat) < 1 \<and> (1::nat) < 2 \<and> 0 < img_width white_2x2 \<and> 0 < img_height white_2x2"
    by code_simp
  show ?thesis
    using sample_outside_buffer_forces_off [OF q o, of 1 2] q o n by blast
qed

section \<open>The drawing loops of the raster renderer\<close>






section \<open>The raster renderer\<close>










section \<open>Constructing the shader renderer\<close>


lemmas construction_defs =
  new_GridRenderer_def createGridRendererProgram_def createShaderProgram_def loadShader_def
  createGridRendererBuffers_def Let_def

lemma construction_succeeds:
  assumes "initialisable d cv"
  shows "new_GridRenderer d cv g =
     (Inr \<lparr>canvas = canvas_id cv,
        gridRendererProgramInfo =
          \<lparr>program = next_object g + 2,
           attribLocations =
             \<lparr>vertexPosition = attribLocation d (next_object g + 2) ''aVertexPosition''\<rparr>,
           uniformLocations =
             \<lparr>gridBottomLeft = uniformLocation d (next_object g + 2) ''uGridBottomLeft'',
              gridCellSize = uniformLocation d (next_object g + 2) ''uGridCellSize'',
              gridCellCount = uniformLocation d (next_object g + 2) ''uGridCellCount''\<rparr>\<rparr>,
        gridRendererBuffers = \<lparr>position = next_object g + 3\<rparr>\<rparr>,
      \<lparr>next_object = next_object g + 4,
       gl_calls = gl_calls g
         @ [CreateShader VERTEX_SHADER (next_object g),
            ShaderSource (next_object g) VERTEX_SHADER, CompileShader (next_object g),
            CreateShader FRAGMENT_SHADER (next_object g + 1),
            ShaderSource (next_object g + 1) FRAGMENT_SHADER,
            CompileShader (next_object g + 1),
            CreateProgram (next_object g + 2),
            AttachShader (next_object g + 2) (next_object g),
            AttachShader (next_object g + 2) (next_object g + 1),
            DeleteShader (next_object g), DeleteShader (next_object g + 1),
            LinkProgram (next_object g + 2),
            CreateBuffer (next_object g + 3), BindBuffer (next_object g + 3),
            BufferData bufferVerts]\<rparr>)"
  using assms by (simp add: initialisable_def construction_defs)

lemma construction_fails:
  assumes "\<not> initialisable d cv"
  shows "\<exists>m. fst (new_GridRenderer d cv g) = Inl (WebGLError m)"
  using assms by (auto simp add: initialisable_def construction_defs)

lemma construction_extends:
  "\<exists>cs. gl_calls (snd (new_GridRenderer d cv g)) = gl_calls g @ cs
     \<and> (\<forall>c \<in> set cs. \<not> releases_older (next_object g) c)
     \<and> (\<forall>r. fst (new_GridRenderer d cv g) = Inr r \<longrightarrow>
           CreateProgram (program (gridRendererProgramInfo r)) \<in> set cs
           \<and> canvas r = canvas_id cv)"
  by (auto simp add: construction_defs)


text \<open>
  C8. Constructing a \<open>GridRenderer\<close> either raises a \<open>WebGLError\<close> or yields a renderer, and
  it yields one exactly when every answer of the context is favourable. Without a WebGL
  context the error is "Can't get WebGL context." and nothing has been done; when the
  vertex or the fragment shader does not compile, the message is "An error occurred
  compiling the shaders: ", the compiler's log and "."; when the program does not link,
  the message is "Unable to initialize the shader program: ", the linker's log and ".".
  A renderer that is returned holds the linked program, the attribute and uniform
  locations looked up in that program, and the buffer that received the quad; both
  shaders were compiled, the program linked and the buffer filled. On every failure the
  result is the error and no renderer.
\<close>

theorem GridRenderer_construction:
  "(\<not> contextWebGL cv \<longrightarrow>
       new_GridRenderer d cv g = (Inl (WebGLError ''Can't get WebGL context.''), g))
   \<and> (contextWebGL cv \<and> createShader_ok d VERTEX_SHADER \<and> \<not> COMPILE_STATUS d VERTEX_SHADER \<longrightarrow>
       fst (new_GridRenderer d cv g) =
         Inl (WebGLError (''An error occurred compiling the shaders: ''
           @ template_text (shaderInfoLog d VERTEX_SHADER) @ ''.'')))
   \<and> (contextWebGL cv \<and> createShader_ok d VERTEX_SHADER \<and> COMPILE_STATUS d VERTEX_SHADER
        \<and> createShader_ok d FRAGMENT_SHADER \<and> \<not> COMPILE_STATUS d FRAGMENT_SHADER \<longrightarrow>
       fst (new_GridRenderer d cv g) =
         Inl (WebGLError (''An error occurred compiling the shaders: ''
           @ template_text (shaderInfoLog d FRAGMENT_SHADER) @ ''.'')))
   \<and> (contextWebGL cv \<and> createShader_ok d VERTEX_SHADER \<and> COMPILE_STATUS d VERTEX_SHADER
        \<and> createShader_ok d FRAGMENT_SHADER \<and> COMPILE_STATUS d FRAGMENT_SHADER
        \<and> createProgram_ok d \<and> \<not> LINK_STATUS d \<longrightarrow>
       fst (new_GridRenderer d cv g) =
         Inl (WebGLError (''Unable to initialize the shader program: ''
           @ template_text (programInfoLog d) @ ''.'')))
   \<and> template_text (Some text) = text
   \<and> (\<not> initialisable d cv \<longrightarrow> (\<exists>m. fst (new_GridRenderer d cv g) = Inl (WebGLError m)))
   \<and> (initialisable d cv \<longrightarrow>
       fst (new_GridRenderer d cv g) =
         Inr \<lparr>canvas = canvas_id cv,
           gridRendererProgramInfo =
             \<lparr>program = next_object g + 2,
              attribLocations =
                \<lparr>vertexPosition = attribLocation d (next_object g + 2) ''aVertexPosition''\<rparr>,
              uniformLocations =
                \<lparr>gridBottomLeft = uniformLocation d (next_object g + 2) ''uGridBottomLeft'',
                 gridCellSize = uniformLocation d (next_object g + 2) ''uGridCellSize'',
                 gridCellCount = uniformLocation d (next_object g + 2) ''uGridCellCount''\<rparr>\<rparr>,
           gridRendererBuffers = \<lparr>position = next_object g + 3\<rparr>\<rparr>
       \<and> set [CompileShader (next_object g), CompileShader (next_object g + 1),
               LinkProgram (next_object g + 2), CreateBuffer (next_object g + 3),
               BufferData bufferVerts]
           \<subseteq> set (gl_calls (snd (new_GridRenderer d cv g))))"
proof -
  have a: "new_GridRenderer d cv g = (Inl (WebGLError ''Can't get WebGL context.''), g)"
    if "\<not> contextWebGL cv"
    using that by (simp add: new_GridRenderer_def)
  have b: "fst (new_GridRenderer d cv g) =
         Inl (WebGLError (''An error occurred compiling the shaders: ''
           @ template_text (shaderInfoLog d VERTEX_SHADER) @ ''.''))"
    if "contextWebGL cv \<and> createShader_ok d VERTEX_SHADER \<and> \<not> COMPILE_STATUS d VERTEX_SHADER"
    using that by (simp add: construction_defs)
  have c: "fst (new_GridRenderer d cv g) =
         Inl (WebGLError (''An error occurred compiling the shaders: ''
           @ template_text (shaderInfoLog d FRAGMENT_SHADER) @ ''.''))"
    if "contextWebGL cv \<and> createShader_ok d VERTEX_SHADER \<and> COMPILE_STATUS d VERTEX_SHADER
        \<and> createShader_ok d FRAGMENT_SHADER \<and> \<not> COMPILE_STATUS d FRAGMENT_SHADER"
    using that by (simp add: construction_defs)
  have l: "fst (new_GridRenderer d cv g) =
         Inl (WebGLError (''Unable to initialize the shader program: ''
           @ template_text (programInfoLog d) @ ''.''))"
    if "contextWebGL cv \<and> createShader_ok d VERTEX_SHADER \<and> COMPILE_STATUS d VERTEX_SHADER
        \<and> createShader_ok d FRAGMENT_SHADER \<and> COMPILE_STATUS d FRAGMENT_SHADER
        \<and> createProgram_ok d \<and> \<not> LINK_STATUS d"
    using that by (simp add: construction_defs)
  have t: "template_text (Some text) = text" by (simp add: template_text_def)
  have f: "\<exists>m. fst (new_GridRenderer d cv g) = Inl (WebGLError m)" if "\<not> initialisable d cv"
    using that by (rule construction_fails)
  have s: "fst (new_GridRenderer d cv g) =
         Inr \<lparr>canvas = canvas_id cv,
           gridRendererProgramInfo =
             \<lparr>program = next_object g + 2,
              attribLocations =
                \<lparr>vertexPosition = attribLocation d (next_object g + 2) ''aVertexPosition''\<rparr>,
              uniformLocations =
                \<lparr>gridBottomLeft = uniformLocation d (next_object g + 2) ''uGridBottomLeft'',
                 gridCellSize = uniformLocation d (next_object g + 2) ''uGridCellSize'',
                 gridCellCount = uniformLocation d (next_object g + 2) ''uGridCellCount''\<rparr>\<rparr>,
           gridRendererBuffers = \<lparr>position = next_object g + 3\<rparr>\<rparr>
       \<and> set [CompileShader (next_object g), CompileShader (next_object g + 1),
               LinkProgram (next_object g + 2), CreateBuffer (next_object g + 3),
               BufferData bufferVerts]
           \<subseteq> set (gl_calls (snd (new_GridRenderer d cv g)))"
    if "initialisable d cv"
    by (simp add: construction_succeeds [OF that])
  show ?thesis using a b c l t f s by blast
qed

theorem GridRenderer_construction_witness:
  "new_GridRenderer driver_ok (blank_canvas 1 True False) (gl initial_app)
      = (Inl (WebGLError ''Can't get WebGL context.''), gl initial_app)
   \<and> fst (new_GridRenderer driver_compile_fails (blank_canvas 1 False True) (gl initial_app))
      = Inl (WebGLError ''An error occurred compiling the shaders: ERROR: 0:21: syntax error.'')
   \<and> fst (new_GridRenderer driver_link_fails (blank_canvas 1 False True) (gl initial_app))
      = Inl (WebGLError ''Unable to initialize the shader program: varyings do not match.'')
   \<and> fst (new_GridRenderer driver_ok (blank_canvas 1 False True) (gl initial_app))
      = Inr \<lparr>canvas = 1,
           gridRendererProgramInfo =
             \<lparr>program = 2, attribLocations = \<lparr>vertexPosition = 0\<rparr>,
              uniformLocations = \<lparr>gridBottomLeft = 0, gridCellSize = 1, gridCellCount = 2\<rparr>\<rparr>,
           gridRendererBuffers = \<lparr>position = 3\<rparr>\<rparr>"
proof -
  have n: "\<not> contextWebGL (blank_canvas 1 True False)" by (simp add: blank_canvas_def)
  have cf: "contextWebGL (blank_canvas 1 False True)
      \<and> createShader_ok driver_compile_fails VERTEX_SHADER
      \<and> COMPILE_STATUS driver_compile_fails VERTEX_SHADER
      \<and> createShader_ok driver_compile_fails FRAGMENT_SHADER
      \<and> \<not> COMPILE_STATUS driver_compile_fails FRAGMENT_SHADER"
    by (simp add: blank_canvas_def driver_compile_fails_def driver_ok_def)
  have cl: "shaderInfoLog driver_compile_fails FRAGMENT_SHADER = Some ''ERROR: 0:21: syntax error''"
    by (simp add: driver_compile_fails_def driver_ok_def)
  have lf: "contextWebGL (blank_canvas 1 False True)
      \<and> createShader_ok driver_link_fails VERTEX_SHADER
      \<and> COMPILE_STATUS driver_link_fails VERTEX_SHADER
      \<and> createShader_ok driver_link_fails FRAGMENT_SHADER
      \<and> COMPILE_STATUS driver_link_fails FRAGMENT_SHADER
      \<and> createProgram_ok driver_link_fails \<and> \<not> LINK_STATUS driver_link_fails"
    by (simp add: blank_canvas_def driver_link_fails_def driver_ok_def)
  have ll: "programInfoLog driver_link_fails = Some ''varyings do not match''"
    by (simp add: driver_link_fails_def driver_ok_def)
  have ok: "initialisable driver_ok (blank_canvas 1 False True)"
    by (simp add: initialisable_def blank_canvas_def driver_ok_def)
  have v: "next_object (gl initial_app) + 2 = 2" "next_object (gl initial_app) + 3 = 3"
    "canvas_id (blank_canvas 1 False True) = 1"
    "attribLocation driver_ok 2 ''aVertexPosition'' = 0"
    "uniformLocation driver_ok 2 ''uGridBottomLeft'' = 0"
    "uniformLocation driver_ok 2 ''uGridCellSize'' = 1"
    "uniformLocation driver_ok 2 ''uGridCellCount'' = 2"
    by (simp_all add: initial_app_def blank_canvas_def driver_ok_def)
  have 1: "new_GridRenderer driver_ok (blank_canvas 1 True False) (gl initial_app)
      = (Inl (WebGLError ''Can't get WebGL context.''), gl initial_app)"
    using GridRenderer_construction [of "blank_canvas 1 True False" driver_ok "gl initial_app"] n
    by blast
  have 2: "fst (new_GridRenderer driver_compile_fails (blank_canvas 1 False True) (gl initial_app))
      = Inl (WebGLError (''An error occurred compiling the shaders: ''
           @ template_text (shaderInfoLog driver_compile_fails FRAGMENT_SHADER) @ ''.''))"
    using GridRenderer_construction
      [of "blank_canvas 1 False True" driver_compile_fails "gl initial_app"] cf
    by blast
  have 3: "fst (new_GridRenderer driver_link_fails (blank_canvas 1 False True) (gl initial_app))
      = Inl (WebGLError (''Unable to initialize the shader program: ''
           @ template_text (programInfoLog driver_link_fails) @ ''.''))"
    using GridRenderer_construction
      [of "blank_canvas 1 False True" driver_link_fails "gl initial_app"] lf
    by blast
  have 4: "fst (new_GridRenderer driver_ok (blank_canvas 1 False True) (gl initial_app))
      = Inr \<lparr>canvas = canvas_id (blank_canvas 1 False True),
           gridRendererProgramInfo =
             \<lparr>program = next_object (gl initial_app) + 2,
              attribLocations =
                \<lparr>vertexPosition =
                   attribLocation driver_ok (next_object (gl initial_app) + 2) ''aVertexPosition''\<rparr>,
              uniformLocations =
                \<lparr>gridBottomLeft =
                   uniformLocation driver_ok (next_object (gl initial_app) + 2) ''uGridBottomLeft'',
                 gridCellSize =
                   uniformLocation driver_ok (next_object (gl initial_app) + 2) ''uGridCellSize'',
                 gridCellCount =
                   uniformLocation driver_ok (next_object (gl initial_app) + 2) ''uGridCellCount''\<rparr>\<rparr>,
           gridRendererBuffers = \<lparr>position = next_object (gl initial_app) + 3\<rparr>\<rparr>"
    using GridRenderer_construction
      [of "blank_canvas 1 False True" driver_ok "gl initial_app"] ok
    by blast
  have t: "template_text (Some ''ERROR: 0:21: syntax error'') = ''ERROR: 0:21: syntax error''"
    "template_text (Some ''varyings do not match'') = ''varyings do not match''"
    by (simp_all add: template_text_def)
  have 2: "fst (new_GridRenderer driver_compile_fails (blank_canvas 1 False True) (gl initial_app))
      = Inl (WebGLError ''An error occurred compiling the shaders: ERROR: 0:21: syntax error.'')"
    using 2 [unfolded cl t] by simp
  have 3: "fst (new_GridRenderer driver_link_fails (blank_canvas 1 False True) (gl initial_app))
      = Inl (WebGLError ''Unable to initialize the shader program: varyings do not match.'')"
    using 3 [unfolded ll t] by simp
  show ?thesis
    using 1 2 3 4 [unfolded v] by (simp only: simp_thms)
qed

section \<open>Replacing the shader renderer\<close>


text \<open>
  C9, as stated, fails: nothing is ever released. The class has no release method ("We're
  relying on garbage collection to free WebGL resources"), and the effect only overwrites
  its reference. After the effect has run for canvas 1 and then for canvas 2, the second
  renderer (program 6, buffer 7) has been constructed, and no call has deleted program 2
  or buffer 3 of the first.
\<close>

theorem renderer_replaced_counterexample:
  "refWebGLGridRenderer app_after_first =
      Some \<lparr>canvas = 1,
        gridRendererProgramInfo =
          \<lparr>program = 2, attribLocations = \<lparr>vertexPosition = 0\<rparr>,
           uniformLocations = \<lparr>gridBottomLeft = 0, gridCellSize = 1, gridCellCount = 2\<rparr>\<rparr>,
        gridRendererBuffers = \<lparr>position = 3\<rparr>\<rparr>
   \<and> refWebGLGridRenderer app_after_second =
      Some \<lparr>canvas = 2,
        gridRendererProgramInfo =
          \<lparr>program = 6, attribLocations = \<lparr>vertexPosition = 0\<rparr>,
           uniformLocations = \<lparr>gridBottomLeft = 0, gridCellSize = 1, gridCellCount = 2\<rparr>\<rparr>,
        gridRendererBuffers = \<lparr>position = 7\<rparr>\<rparr>
   \<and> CreateProgram 6 \<in> set (gl_calls (gl app_after_second))
   \<and> CreateBuffer 7 \<in> set (gl_calls (gl app_after_second))
   \<and> DeleteProgram 2 \<notin> set (gl_calls (gl app_after_second))
   \<and> DeleteBuffer 3 \<notin> set (gl_calls (gl app_after_second))"
  by code_simp

lemma render_calls:
  "gl_calls (snd (render r cv p g)) = gl_calls g @ drawGridScene (gridRendererProgramInfo r) (gridRendererBuffers r) p"
  by (simp add: render_def)

lemma drawGridScene_no_release: "\<forall>c \<in> set (drawGridScene info bufs p). \<not> releases_older n c"
  by (simp add: drawGridScene_def)

text \<open>
  C9, amended. When the stored renderer belongs to another canvas than the current one,
  the effect constructs a new \<open>GridRenderer\<close> for the current canvas without releasing
  anything: the calls it adds contain neither \<open>deleteProgram\<close> of the old renderer's program
  nor \<open>deleteBuffer\<close> of its vertex buffer. If the construction succeeds, the new renderer
  replaces the old one in the reference; if it raises, the error leaves the effect and the
  old renderer stays referenced.
\<close>

theorem renderer_replaced_without_release:
  assumes "refWebGLGridRenderer st = Some old" and "gridCanvas old \<noteq> canvas_id cv"
    and "program (gridRendererProgramInfo old) < next_object (gl st)"
    and "position (gridRendererBuffers old) < next_object (gl st)"
  shows "\<exists>cs. gl_calls (gl (snd (grid_effect d True (Some cv) p st))) = gl_calls (gl st) @ cs
      \<and> DeleteProgram (program (gridRendererProgramInfo old)) \<notin> set cs
      \<and> DeleteBuffer (position (gridRendererBuffers old)) \<notin> set cs
      \<and> (\<forall>r. fst (new_GridRenderer d cv (gl st)) = Inr r \<longrightarrow>
            refWebGLGridRenderer (snd (grid_effect d True (Some cv) p st)) = Some r
            \<and> gridCanvas r = canvas_id cv
            \<and> CreateProgram (program (gridRendererProgramInfo r)) \<in> set cs)
      \<and> (\<forall>e. fst (new_GridRenderer d cv (gl st)) = Inl e \<longrightarrow>
            fst (grid_effect d True (Some cv) p st) = Inl e
            \<and> refWebGLGridRenderer (snd (grid_effect d True (Some cv) p st)) = Some old)"
proof -
  obtain res g1 where n: "new_GridRenderer d cv (gl st) = (res, g1)" by (cases "new_GridRenderer d cv (gl st)")
  obtain cs where cs: "gl_calls g1 = gl_calls (gl st) @ cs"
      "\<forall>c \<in> set cs. \<not> releases_older (next_object (gl st)) c"
      "\<forall>r. res = Inr r \<longrightarrow>
           CreateProgram (program (gridRendererProgramInfo r)) \<in> set cs \<and> canvas r = canvas_id cv"
    using construction_extends [of d cv "gl st"] n by auto
  have old: "releases_older (next_object (gl st)) (DeleteProgram (program (gridRendererProgramInfo old)))"
    "releases_older (next_object (gl st)) (DeleteBuffer (position (gridRendererBuffers old)))"
    using assms(3,4) by simp_all
  show ?thesis
  proof (cases res)
    case (Inl e)
    have "grid_effect d True (Some cv) p st = (Inl e, st\<lparr>gl := g1\<rparr>)"
      using assms(1,2) n Inl by (simp add: grid_effect_def)
    then show ?thesis using cs old n Inl assms(1) by auto
  next
    case (Inr r)
    let ?ds = "drawGridScene (gridRendererProgramInfo r) (gridRendererBuffers r) p"
    have e: "grid_effect d True (Some cv) p st =
        (Inr (Some (fst (render r cv p g1))),
         \<lparr>refWebGLGridRenderer = Some r, gl = snd (render r cv p g1)\<rparr>)"
      using assms(1,2) n Inr by (simp add: grid_effect_def)
    have c: "gl_calls (gl (snd (grid_effect d True (Some cv) p st))) = gl_calls (gl st) @ (cs @ ?ds)"
      by (simp add: e render_calls cs(1))
    have nr: "\<forall>c \<in> set (cs @ ?ds). \<not> releases_older (next_object (gl st)) c"
      using cs(2) drawGridScene_no_release [of "gridRendererProgramInfo r" "gridRendererBuffers r" p]
      by auto
    have "DeleteProgram (program (gridRendererProgramInfo old)) \<notin> set (cs @ ?ds)"
      "DeleteBuffer (position (gridRendererBuffers old)) \<notin> set (cs @ ?ds)"
      using nr old by blast+
    moreover have "CreateProgram (program (gridRendererProgramInfo r)) \<in> set (cs @ ?ds)"
      "gridCanvas r = canvas_id cv"
      using cs(3) Inr by (simp_all add: gridCanvas_def)
    ultimately show ?thesis using c e n Inr by auto
  qed
qed


theorem renderer_replaced_without_release_witness:
  "refWebGLGridRenderer app_after_first = Some first_renderer
   \<and> (\<exists>cs. gl_calls (gl app_after_second) = gl_calls (gl app_after_first) @ cs
         \<and> DeleteProgram 2 \<notin> set cs \<and> DeleteBuffer 3 \<notin> set cs)"
proof -
  have r: "refWebGLGridRenderer app_after_first = Some first_renderer" by code_simp
  have h: "gridCanvas first_renderer \<noteq> canvas_id (blank_canvas 2 False True)" by code_simp
  have b: "program (gridRendererProgramInfo first_renderer) < next_object (gl app_after_first)"
    "position (gridRendererBuffers first_renderer) < next_object (gl app_after_first)"
    by code_simp+
  have v: "program (gridRendererProgramInfo first_renderer) = 2"
    "position (gridRendererBuffers first_renderer) = 3"
    by (simp_all add: first_renderer_def)
  show ?thesis
    using renderer_replaced_without_release [OF r h b, of driver_ok params_100] r
    unfolding v app_after_second_def by blast
qed

end
